theory Spec2Isabelle
  imports Main
begin

section \<open>Python values shared by the two scripts\<close>

text \<open>
  Strings are lists of characters. \<open>print(x)\<close> writes \<open>x\<close> followed by a newline,
  \<open>print(x, end="")\<close> writes \<open>x\<close> alone; what a script writes to its standard output is
  recorded, in order, as \<open>Print\<close> events.
\<close>

definition nl :: string where
  "nl = [CHR 0x0A]"

fun startswith :: "string \<Rightarrow> string \<Rightarrow> bool" where
  "startswith s [] = True"
| "startswith [] (p # ps) = False"
| "startswith (c # cs) (p # ps) = (c = p \<and> startswith cs ps)"

definition endswith :: "string \<Rightarrow> string \<Rightarrow> bool" where
  "endswith s suf = startswith (rev s) (rev suf)"

text \<open>Python's \<open>pat in s\<close> on strings.\<close>

fun contains :: "string \<Rightarrow> string \<Rightarrow> bool" where
  "contains pat [] = (pat = [])"
| "contains pat (c # cs) = (startswith (c # cs) pat \<or> contains pat cs)"

function str_nat :: "nat \<Rightarrow> string" where
  "str_nat n =
     (if n < 10 then [''0123456789'' ! n]
      else str_nat (n div 10) @ [''0123456789'' ! (n mod 10)])"
  by pat_completeness auto
termination
  by (relation "measure (\<lambda>n. n)") auto

definition str_int :: "int \<Rightarrow> string" where
  "str_int i = (if i < 0 then ''-'' @ str_nat (nat (- i)) else str_nat (nat i))"

text \<open>
  The exceptions the two scripts can meet. \<open>OSError\<close> stands for its subclasses
  (\<open>FileNotFoundError\<close>, \<open>NotADirectoryError\<close>, \<open>IsADirectoryError\<close>,
  \<open>FileExistsError\<close>, \<open>shutil.SameFileError\<close>).
\<close>

datatype pyerr =
    OSError | KeyError string | IndexError | TypeError | AttributeError | JSONDecodeError

text \<open>
  \<open>sys.exit(n)\<close> raises \<open>SystemExit\<close>, which is not an \<open>Exception\<close>: an
  \<open>except Exception\<close> clause lets it through, a \<open>finally\<close> clause still runs.
\<close>

datatype exc = SystemExit int | Error pyerr

datatype event =
    Print string
  | Exec "string list"
  | Sleep nat
  | Makedirs string
  | Copy2 string string
  | Chmod string nat

text \<open>The commands run so far, in order.\<close>

fun execs :: "event list \<Rightarrow> string list list" where
  "execs [] = []"
| "execs (Exec c # es) = c # execs es"
| "execs (_ # es) = execs es"

fun printed :: "event list \<Rightarrow> string list" where
  "printed [] = []"
| "printed (Print s # es) = s # printed es"
| "printed (_ # es) = printed es"

text \<open>
  \<open>sys.exit(main())\<close>: the status of the process is the value \<open>main\<close> returns, the code
  of a \<open>SystemExit\<close>, and 1 when another exception reaches the top level.
\<close>

fun exit_code :: "exc + int \<Rightarrow> int" where
  "exit_code (Inr n) = n"
| "exit_code (Inl (SystemExit n)) = n"
| "exit_code (Inl (Error e)) = 1"

section \<open>scripts/verify\_build.py\<close>

subsection \<open>Configuration\<close>

definition DEFAULT_VERSION :: string where
  "DEFAULT_VERSION = ''0.0.1-test''"

definition PLATFORMS :: "string list" where
  "PLATFORMS = [''win-x64'', ''linux-x64'', ''osx-x64'']"

definition MIN_FILE_SIZE :: nat where
  "MIN_FILE_SIZE = 1000000"

definition RED :: string where "RED = CHR 0x1B # ''[0;31m''"
definition GREEN :: string where "GREEN = CHR 0x1B # ''[0;32m''"
definition YELLOW :: string where "YELLOW = CHR 0x1B # ''[0;33m''"
definition BLUE :: string where "BLUE = CHR 0x1B # ''[0;34m''"
definition NC :: string where "NC = CHR 0x1B # ''[0m''"

subsection \<open>The file system\<close>

text \<open>
  A file system is a tree: a regular file with its size in bytes and its permission bits, or
  a directory with its entries in the order in which the operating system lists them.
  Paths are POSIX paths, resolved from the root of the tree; symbolic links and the
  permissions of directories are not modelled.
\<close>

datatype node = File nat nat | Dir "(string \<times> node) list"

fun split_on :: "char \<Rightarrow> string \<Rightarrow> string list" where
  "split_on d [] = [[]]"
| "split_on d (c # cs) =
     (if c = d then [] # split_on d cs
      else (case split_on d cs of
              [] \<Rightarrow> [[c]]
            | w # ws \<Rightarrow> (c # w) # ws))"

text \<open>\<open>os.path.join\<close> of \<open>posixpath\<close>: a left fold over the components.\<close>

definition join2 :: "string \<Rightarrow> string \<Rightarrow> string" where
  "join2 a b =
     (if startswith b ''/'' then b
      else if a = [] \<or> endswith a ''/'' then a @ b
      else a @ ''/'' @ b)"

definition os_path_join :: "string \<Rightarrow> string list \<Rightarrow> string" where
  "os_path_join a bs = foldl join2 a bs"

fun lookup :: "node \<Rightarrow> string list \<Rightarrow> node option" where
  "lookup n [] = Some n"
| "lookup (File sz md) (c # cs) = None"
| "lookup (Dir es) (c # cs) =
     (case map_of es c of None \<Rightarrow> None | Some n \<Rightarrow> lookup n cs)"

text \<open>
  Path resolution walks the components from the directory reached so far: an empty
  component and \<open>.\<close> stay, \<open>..\<close> goes up, a name goes down; every step but the
  last needs a directory.
\<close>

fun canon :: "node \<Rightarrow> string list \<Rightarrow> string list \<Rightarrow> string list option" where
  "canon r cur [] = Some cur"
| "canon r cur (c # cs) =
     (case lookup r cur of
        Some (Dir es) \<Rightarrow>
          (if c = [] \<or> c = ''.'' then canon r cur cs
           else if c = ''..'' then canon r (butlast cur) cs
           else canon r (cur @ [c]) cs)
      | _ \<Rightarrow> None)"

definition resolve :: "node \<Rightarrow> string \<Rightarrow> string list option" where
  "resolve r p = (if p = [] then None else canon r [] (split_on CHR ''/'' p))"

definition stat :: "node \<Rightarrow> string \<Rightarrow> node option" where
  "stat r p = (case resolve r p of None \<Rightarrow> None | Some cp \<Rightarrow> lookup r cp)"

definition isfile :: "node \<Rightarrow> string \<Rightarrow> bool" where
  "isfile r p = (case stat r p of Some (File sz md) \<Rightarrow> True | _ \<Rightarrow> False)"

definition isdir :: "node \<Rightarrow> string \<Rightarrow> bool" where
  "isdir r p = (case stat r p of Some (Dir es) \<Rightarrow> True | _ \<Rightarrow> False)"

text \<open>
  \<open>os.path.getsize\<close> is called only on a path that \<open>os.path.isfile\<close> has accepted,
  where it cannot raise.
\<close>

definition getsize :: "node \<Rightarrow> string \<Rightarrow> nat" where
  "getsize r p = (case stat r p of Some (File sz md) \<Rightarrow> sz | _ \<Rightarrow> 0)"

text \<open>
  \<open>os.access(path, os.X_OK)\<close> on a regular file: some execute bit of the mode
  (\<open>0o111 = 73\<close>) is set.
\<close>

definition os_access_X_OK :: "node \<Rightarrow> string \<Rightarrow> bool" where
  "os_access_X_OK r p =
     (case stat r p of
        None \<Rightarrow> False
      | Some (Dir es) \<Rightarrow> True
      | Some (File sz md) \<Rightarrow> and md 73 \<noteq> 0)"

subsection \<open>State and output\<close>

record bstate =
  fs :: node
  trace :: "event list"

definition emit :: "event \<Rightarrow> bstate \<Rightarrow> bstate" where
  "emit e s = s\<lparr>trace := trace s @ [e]\<rparr>"

definition print_colored :: "string \<Rightarrow> string \<Rightarrow> bstate \<Rightarrow> bstate" where
  "print_colored message color s = emit (Print (color @ message @ NC @ nl)) s"

subsection \<open>check\_executable\<close>

definition check_executable :: "string \<Rightarrow> string \<Rightarrow> bstate \<Rightarrow> bool \<times> bstate" where
  "check_executable file_path platform_name s =
     (let s1 = emit (Print (''Checking '' @ platform_name @ '' executable: '')) s in
      if \<not> isfile (fs s1) file_path then
        (False, print_colored ''FAILED - File not found'' RED s1)
      else
        let file_size = getsize (fs s1) file_path in
        if file_size < MIN_FILE_SIZE then
          (False, print_colored
             (''FAILED - File too small ('' @ str_nat file_size @ '' bytes)'') RED s1)
        else if platform_name \<noteq> ''win-x64'' \<and> \<not> os_access_X_OK (fs s1) file_path then
          (False, print_colored ''FAILED - File not executable'' RED s1)
        else
          (True, print_colored ''PASSED'' GREEN s1))"

subsection \<open>Directory listings\<close>

text \<open>
  \<open>os.walk\<close> visits a directory before its subdirectories and yields, for each directory,
  its path, the names of its subdirectories and the names of its other entries. A top that
  is not a directory yields nothing: the error of the scan is swallowed.
\<close>

fun walk :: "string \<Rightarrow> node \<Rightarrow> (string \<times> string list \<times> string list) list" where
  "walk tp (File sz md) = []"
| "walk tp (Dir es) =
     (tp, [n. (n, Dir ds) \<leftarrow> es], [n. (n, File sz md) \<leftarrow> es])
     # concat (map (\<lambda>(n, sub). walk (join2 tp n) sub) es)"

definition os_walk :: "node \<Rightarrow> string \<Rightarrow> (string \<times> string list \<times> string list) list" where
  "os_walk r tp = (case stat r tp of Some (Dir es) \<Rightarrow> walk tp (Dir es) | _ \<Rightarrow> [])"

definition listdir :: "node \<Rightarrow> string \<Rightarrow> pyerr + string list" where
  "listdir r p =
     (case stat r p of Some (Dir es) \<Rightarrow> Inr (map fst es) | _ \<Rightarrow> Inl OSError)"

text \<open>\<open>os.path.split\<close>: the part before the last slash, without its trailing slashes
  unless it consists of slashes only, and the part after it.\<close>

definition os_path_split :: "string \<Rightarrow> string \<times> string" where
  "os_path_split p =
     (let rtail = takeWhile (\<lambda>c. c \<noteq> CHR ''/'') (rev p);
          rhead = dropWhile (\<lambda>c. c \<noteq> CHR ''/'') (rev p)
      in (if rhead \<noteq> [] \<and> (\<exists>c \<in> set rhead. c \<noteq> CHR ''/'')
          then rev (dropWhile (\<lambda>c. c = CHR ''/'') rhead) else rev rhead,
          rev rtail))"

definition basename :: "string \<Rightarrow> string" where
  "basename p = snd (os_path_split p)"

text \<open>
  \<open>glob.glob(os.path.join(directory, "*.exe"))\<close>, for a directory name that holds none of
  the wildcard characters \<open>*\<close>, \<open>?\<close> and \<open>[\<close>: the entries of the directory, in listing
  order, whose name ends in \<open>.exe\<close> and does not start with a dot, each joined to the
  directory name. A directory that cannot be listed gives the empty list.
\<close>

definition glob_exe :: "node \<Rightarrow> string \<Rightarrow> string list" where
  "glob_exe r directory =
     (let pattern = os_path_join directory [''*.exe''];
          dirname = fst (os_path_split pattern)
      in case (if dirname = [] then Some r else stat r dirname) of
           Some (Dir es) \<Rightarrow>
             [join2 dirname n. (n, e) \<leftarrow> es, \<not> startswith n ''.'', endswith n ''.exe'']
         | _ \<Rightarrow> [])"

subsection \<open>find\_executable\<close>

definition find_executable :: "node \<Rightarrow> string \<Rightarrow> string \<Rightarrow> string option" where
  "find_executable r directory platform =
     (if platform = ''win-x64'' then
        find (\<lambda>f. contains ''RewindSubtitleDisplayerForPlex'' f) (glob_exe r directory)
      else
        let executables =
              concat (map (\<lambda>(root, dirs, files).
                 [os_path_join root [file]. file \<leftarrow> files,
                    contains ''RewindSubtitleDisplayerForPlex'' file,
                    os_access_X_OK r (os_path_join root [file])])
                 (os_walk r directory))
        in (case executables of [] \<Rightarrow> None | e # es \<Rightarrow> Some e))"

subsection \<open>Writing to the file system\<close>

fun put :: "string list \<Rightarrow> node \<Rightarrow> node \<Rightarrow> node" where
  "put [] new old = new"
| "put (c # cs) new (File sz md) = File sz md"
| "put (c # cs) new (Dir es) =
     (case map_of es c of
        None \<Rightarrow> Dir (es @ [(c, put cs new (Dir []))])
      | Some sub \<Rightarrow> Dir (map (\<lambda>(k, v). if k = c then (k, put cs new v) else (k, v)) es))"

text \<open>Where a file opened for writing at a path lands: its directory has to exist.\<close>

definition locate :: "node \<Rightarrow> string \<Rightarrow> string list option" where
  "locate r p =
     (if p = [] then None
      else let comps = split_on CHR ''/'' p in
        case canon r [] (butlast comps) of
          None \<Rightarrow> None
        | Some par \<Rightarrow>
            (case lookup r par of
               Some (Dir es) \<Rightarrow>
                 (if last comps = [] \<or> last comps = ''.'' \<or> last comps = ''..'' then None
                  else Some (par @ [last comps]))
             | _ \<Rightarrow> None))"

text \<open>
  \<open>shutil.copy2(src, dst)\<close>: a destination that is a directory receives the file under
  the source's base name; the copy has the source's size and permission bits. A source
  that is not a regular file, a destination whose directory is missing or that is itself
  a directory, and a destination that is the source raise.
\<close>

definition copy2 :: "node \<Rightarrow> string \<Rightarrow> string \<Rightarrow> pyerr + node" where
  "copy2 r src dst =
     (let dst' = (if isdir r dst then os_path_join dst [basename src] else dst) in
      case stat r src of
        Some (File sz md) \<Rightarrow>
          (case locate r dst' of
             None \<Rightarrow> Inl OSError
           | Some cp \<Rightarrow>
               if resolve r src = Some cp then Inl OSError
               else (case lookup r cp of
                       Some (Dir es) \<Rightarrow> Inl OSError
                     | _ \<Rightarrow> Inr (put cp (File sz md) r)))
      | _ \<Rightarrow> Inl OSError)"

definition chmod :: "node \<Rightarrow> string \<Rightarrow> nat \<Rightarrow> pyerr + node" where
  "chmod r p m =
     (case resolve r p of
        None \<Rightarrow> Inl OSError
      | Some cp \<Rightarrow>
          (case lookup r cp of
             None \<Rightarrow> Inl OSError
           | Some (Dir es) \<Rightarrow> Inr r
           | Some (File sz md) \<Rightarrow> Inr (put cp (File sz m) r)))"

text \<open>\<open>os.makedirs(path, exist_ok=True)\<close>: creates the missing directories along the
  path; raises when a component of the path is a regular file.\<close>

fun mkdirs :: "node \<Rightarrow> string list \<Rightarrow> string list \<Rightarrow> pyerr + node" where
  "mkdirs r cur [] = (case lookup r cur of Some (Dir es) \<Rightarrow> Inr r | _ \<Rightarrow> Inl OSError)"
| "mkdirs r cur (c # cs) =
     (case lookup r cur of
        Some (Dir es) \<Rightarrow>
          (if c = [] \<or> c = ''.'' then mkdirs r cur cs
           else if c = ''..'' then mkdirs r (butlast cur) cs
           else (case map_of es c of
                   None \<Rightarrow> mkdirs (put (cur @ [c]) (Dir []) r) (cur @ [c]) cs
                 | Some n \<Rightarrow> mkdirs r (cur @ [c]) cs))
      | _ \<Rightarrow> Inl OSError)"

definition makedirs :: "node \<Rightarrow> string \<Rightarrow> pyerr + node" where
  "makedirs r p = (if p = [] then Inl OSError else mkdirs r [] (split_on CHR ''/'' p))"

subsection \<open>The external commands\<close>

text \<open>
  The build toolchain and the version control query are opaque: \<open>git rev-parse\<close> answers
  with a return code and its standard output, \<open>dotnet publish\<close> with a return code and
  the file system it leaves behind. A command is taken to start and to come back.
\<close>

record bworld =
  git_rev_parse :: "int \<times> string"
  dotnet_publish :: "string list \<Rightarrow> node \<Rightarrow> int \<times> node"

text \<open>\<open>str.strip()\<close>, on characters below 256.\<close>

definition isspace :: "char \<Rightarrow> bool" where
  "isspace c = ((of_char c :: nat) \<in> {9, 10, 11, 12, 13, 28, 29, 30, 31, 32, 133, 160})"

definition strip :: "string \<Rightarrow> string" where
  "strip x = rev (dropWhile isspace (rev (dropWhile isspace x)))"

subsection \<open>find\_repo\_root\<close>

definition find_repo_root :: "bworld \<Rightarrow> bstate \<Rightarrow> (exc + string) \<times> bstate" where
  "find_repo_root w s =
     (let s1 = emit (Exec [''git'', ''rev-parse'', ''--show-toplevel'']) s in
      if fst (git_rev_parse w) \<noteq> 0 then
        (Inl (SystemExit 1), print_colored ''Error: Not a git repository'' RED s1)
      else (Inr (strip (snd (git_rev_parse w))), s1))"

subsection \<open>build\_for\_platform\<close>

definition dotnet_cmd :: "string \<Rightarrow> string \<Rightarrow> string list" where
  "dotnet_cmd version platform_name =
     [''dotnet'', ''publish'', ''-c'', ''Release'', ''-r'', platform_name,
      ''--self-contained'', ''true'', ''-p:PublishSingleFile=true'',
      ''-p:PublishTrimmed=true'', ''-p:Version='' @ version]"

definition ext :: "string \<Rightarrow> string" where
  "ext platform_name = (if platform_name = ''win-x64'' then ''.exe'' else [])"

definition target_file :: "string \<Rightarrow> string \<Rightarrow> string \<Rightarrow> string" where
  "target_file assets_dir version platform_name =
     os_path_join assets_dir
       [''RewindSubtitleDisplayerForPlex_'' @ version @ ''_'' @ platform_name
        @ ext platform_name]"

text \<open>The branch taken when no executable was found: the error, then the listing of the
  publish directory, which raises when that directory cannot be listed.\<close>

definition report_missing :: "string \<Rightarrow> string \<Rightarrow> bstate \<Rightarrow> (exc + bool) \<times> bstate" where
  "report_missing platform_name publish_dir s =
     (let s1 = print_colored (''ERROR: Could not find executable for '' @ platform_name) RED s;
          s2 = emit (Print (''Contents of publish directory:'' @ nl)) s1
      in case listdir (fs s2) publish_dir of
           Inl e \<Rightarrow> (Inl (Error e), s2)
         | Inr items \<Rightarrow>
             (Inr False, foldl (\<lambda>st item. emit (Print (''  '' @ item @ nl)) st) s2 items))"

definition copy_and_check ::
  "string \<Rightarrow> string \<Rightarrow> string \<Rightarrow> string \<Rightarrow> bstate \<Rightarrow> (exc + bool) \<times> bstate" where
  "copy_and_check executable platform_name version assets_dir s =
     (let s1 = emit (Print (''Found executable: '' @ executable @ nl)) s;
          tgt = target_file assets_dir version platform_name;
          s2 = emit (Copy2 executable tgt) s1
      in case copy2 (fs s2) executable tgt of
           Inl e \<Rightarrow> (Inl (Error e), s2)
         | Inr r3 \<Rightarrow>
             if platform_name \<noteq> ''win-x64'' then
               (let s4 = emit (Chmod tgt 493) (s2\<lparr>fs := r3\<rparr>) in
                case chmod (fs s4) tgt 493 of
                  Inl e \<Rightarrow> (Inl (Error e), s4)
                | Inr r5 \<Rightarrow>
                    (case check_executable tgt platform_name (s4\<lparr>fs := r5\<rparr>) of
                       (ok, s6) \<Rightarrow> (Inr ok, s6)))
             else
               (case check_executable tgt platform_name (s2\<lparr>fs := r3\<rparr>) of
                  (ok, s6) \<Rightarrow> (Inr ok, s6)))"

text \<open>
  \<open>subprocess.run(..., check=True)\<close> raises \<open>CalledProcessError\<close> on a return code other
  than 0, which the function catches. \<open>not executable\<close> holds for \<open>None\<close> and for the
  empty string. \<open>0o755 = 493\<close>.
\<close>

definition build_for_platform ::
  "bworld \<Rightarrow> string \<Rightarrow> string \<Rightarrow> string \<Rightarrow> string \<Rightarrow> bstate \<Rightarrow> (exc + bool) \<times> bstate" where
  "build_for_platform w platform_name version build_dir assets_dir s =
     (let s1 = print_colored (nl @ ''Building for '' @ platform_name @ ''...'') YELLOW s;
          cmd = dotnet_cmd version platform_name;
          res = dotnet_publish w cmd (fs s1);
          s2 = emit (Exec cmd) (s1\<lparr>fs := snd res\<rparr>)
      in if fst res \<noteq> 0 then
           (Inr False, print_colored (''ERROR: Build failed for '' @ platform_name) RED s2)
         else
           let publish_dir = os_path_join build_dir [platform_name, ''publish''] in
           case find_executable (fs s2) publish_dir platform_name of
             None \<Rightarrow> report_missing platform_name publish_dir s2
           | Some executable \<Rightarrow>
               if executable = [] then report_missing platform_name publish_dir s2
               else copy_and_check executable platform_name version assets_dir s2)"

subsection \<open>main\<close>

text \<open>The loop over the requested platforms, with the flag \<open>success\<close> it maintains. An
  exception that leaves \<open>build_for_platform\<close> leaves the loop.\<close>

definition warn_unknown :: "string \<Rightarrow> bstate \<Rightarrow> bstate" where
  "warn_unknown platform_name s =
     (if platform_name \<notin> set PLATFORMS
      then print_colored (''WARNING: Unknown platform '' @ platform_name) YELLOW s
      else s)"

fun verify_platforms ::
  "bworld \<Rightarrow> string \<Rightarrow> string \<Rightarrow> string \<Rightarrow> string list \<Rightarrow> bool \<Rightarrow> bstate
   \<Rightarrow> (exc + bool) \<times> bstate" where
  "verify_platforms w version build_dir assets_dir [] success s = (Inr success, s)"
| "verify_platforms w version build_dir assets_dir (platform_name # rest) success s =
     (case build_for_platform w platform_name version build_dir assets_dir
             (warn_unknown platform_name s) of
        (Inl e, s') \<Rightarrow> (Inl e, s')
      | (Inr ok, s') \<Rightarrow>
          verify_platforms w version build_dir assets_dir rest
            (if \<not> ok then False else success) s')"

definition finish :: "string \<Rightarrow> bool \<Rightarrow> bstate \<Rightarrow> (exc + int) \<times> bstate" where
  "finish assets_dir success s =
     (if success then
        (let s1 = print_colored (nl @ ''All build assets verified successfully!'') GREEN s;
             s2 = emit (Print (''Release assets are available in: '' @ assets_dir @ nl)) s1
         in case listdir (fs s2) assets_dir of
              Inl e \<Rightarrow> (Inl (Error e), s2)
            | Inr items \<Rightarrow>
                (Inr 0, foldl (\<lambda>st item. emit (Print (''  '' @ item @ nl)) st) s2 items))
      else
        (Inr 1, print_colored (nl @ ''Verification failed for one or more platforms'') RED s))"

text \<open>What \<open>main\<close> does before the loop: the repository root, the two directories, the
  creation of the release-assets directory.\<close>

definition prelude :: "bworld \<Rightarrow> string \<Rightarrow> bstate \<Rightarrow> (exc + string \<times> string) \<times> bstate" where
  "prelude w version s =
     (case find_repo_root w s of
        (Inl e, s1) \<Rightarrow> (Inl e, s1)
      | (Inr repo_root, s1) \<Rightarrow>
          let build_dir = os_path_join repo_root [''bin'', ''Release'', ''net9.0''];
              assets_dir = os_path_join repo_root [''release-assets''];
              s2 = emit (Makedirs assets_dir) s1
          in case makedirs (fs s2) assets_dir of
               Inl e \<Rightarrow> (Inl (Error e), s2)
             | Inr r3 \<Rightarrow>
                 (Inr (build_dir, assets_dir),
                  print_colored (''Verifying build assets for version '' @ version) YELLOW
                    (s2\<lparr>fs := r3\<rparr>)))"

definition main :: "bworld \<Rightarrow> string \<Rightarrow> string list \<Rightarrow> bstate \<Rightarrow> (exc + int) \<times> bstate" where
  "main w version platforms s =
     (case prelude w version s of
        (Inl e, s1) \<Rightarrow> (Inl e, s1)
      | (Inr (build_dir, assets_dir), s4) \<Rightarrow>
          (case verify_platforms w version build_dir assets_dir platforms True s4 of
             (Inl e, s5) \<Rightarrow> (Inl e, s5)
           | (Inr success, s5) \<Rightarrow> finish assets_dir success s5))"

subsection \<open>Observations on a run\<close>

text \<open>The result of each call of \<open>build_for_platform\<close> that the loop makes, in order.\<close>

fun outcomes ::
  "bworld \<Rightarrow> string \<Rightarrow> string \<Rightarrow> string \<Rightarrow> string list \<Rightarrow> bstate \<Rightarrow> (exc + bool) list" where
  "outcomes w version build_dir assets_dir [] s = []"
| "outcomes w version build_dir assets_dir (platform_name # rest) s =
     (case build_for_platform w platform_name version build_dir assets_dir
             (warn_unknown platform_name s) of
        (Inl e, s') \<Rightarrow> [Inl e]
      | (Inr ok, s') \<Rightarrow> Inr ok # outcomes w version build_dir assets_dir rest s')"

text \<open>The state in which \<open>build_for_platform\<close> looks for the executable: the
  announcement is printed and the toolchain has come back.\<close>

definition after_publish :: "bworld \<Rightarrow> string \<Rightarrow> string \<Rightarrow> bstate \<Rightarrow> bstate" where
  "after_publish w p v s =
     emit (Exec (dotnet_cmd v p))
       (print_colored (nl @ ''Building for '' @ p @ ''...'') YELLOW s
          \<lparr>fs := snd (dotnet_publish w (dotnet_cmd v p) (fs s))\<rparr>)"

fun copies :: "event list \<Rightarrow> (string \<times> string) list" where
  "copies [] = []"
| "copies (Copy2 src dst # es) = (src, dst) # copies es"
| "copies (_ # es) = copies es"

fun chmods :: "event list \<Rightarrow> (string \<times> nat) list" where
  "chmods [] = []"
| "chmods (Chmod p m # es) = (p, m) # chmods es"
| "chmods (_ # es) = chmods es"

section \<open>Concrete runs\<close>

text \<open>A release-assets directory holding a Windows artifact of exactly one million bytes,
  with mode \<open>0o644 = 420\<close>.\<close>

definition exact_threshold_fs :: node where
  "exact_threshold_fs = Dir [(''release-assets'',
      Dir [(''RewindSubtitleDisplayerForPlex_1.2.3_win-x64.exe'', File 1000000 420)])]"

text \<open>A toolchain that reports success and leaves the file system as it is, in a
  repository at \<open>/repo\<close>.\<close>

definition idle_toolchain :: bworld where
  "idle_toolchain = \<lparr>git_rev_parse = (0, ''/repo'' @ nl), dotnet_publish = (\<lambda>cmd r. (0, r))\<rparr>"

text \<open>A repository whose publish directories hold the binaries already.\<close>

definition built_fs :: node where
  "built_fs = Dir [(''repo'', Dir
     [(''bin'', Dir [(''Release'', Dir [(''net9.0'', Dir
        [(''win-x64'', Dir [(''publish'', Dir
            [(''RewindSubtitleDisplayerForPlex.exe'', File 70000000 420)])]),
         (''linux-x64'', Dir [(''publish'', Dir
            [(''RewindSubtitleDisplayerForPlex.pdb'', File 20000 420),
             (''RewindSubtitleDisplayerForPlex'', File 70000000 493)])])])])]),
      (''release-assets'', Dir [])])]"

text \<open>A repository checked out in a directory named after the product; the Windows publish
  directory holds a second executable, listed first.\<close>

definition product_named_fs :: node where
  "product_named_fs = Dir [(''work'', Dir [(''RewindSubtitleDisplayerForPlex'', Dir
     [(''bin'', Dir [(''Release'', Dir [(''net9.0'', Dir
        [(''win-x64'', Dir [(''publish'', Dir
            [(''createdump.exe'', File 60000 420),
             (''RewindSubtitleDisplayerForPlex.exe'', File 70000000 420)])])])])])])])]"

section \<open>Properties of scripts/verify\_build.py\<close>

lemma fs_emit [simp]: "fs (emit e s) = fs s"
  by (simp add: emit_def)

lemma fs_print_colored [simp]: "fs (print_colored m c s) = fs s"
  by (simp add: print_colored_def)

lemma trace_emit [simp]: "trace (emit e s) = trace s @ [e]"
  by (simp add: emit_def)

lemma trace_print_colored [simp]:
  "trace (print_colored m c s) = trace s @ [Print (c @ m @ NC @ nl)]"
  by (simp add: print_colored_def)

lemma fs_check_executable [simp]: "fs (snd (check_executable p pl s)) = fs s"
  by (simp add: check_executable_def Let_def)

subsection \<open>Traces and results of the steps\<close>


lemma check_executable_fst:
  "fst (check_executable file_path platform_name s) =
     (isfile (fs s) file_path \<and> MIN_FILE_SIZE \<le> getsize (fs s) file_path
      \<and> (platform_name = ''win-x64'' \<or> os_access_X_OK (fs s) file_path))"
  by (auto simp add: check_executable_def Let_def)

lemma execs_append [simp]: "execs (xs @ ys) = execs xs @ execs ys"
  by (induction xs rule: execs.induct) auto

lemma copies_append [simp]: "copies (xs @ ys) = copies xs @ copies ys"
  by (induction xs rule: copies.induct) auto

lemma chmods_append [simp]: "chmods (xs @ ys) = chmods xs @ chmods ys"
  by (induction xs rule: chmods.induct) auto

lemma printed_append [simp]: "printed (xs @ ys) = printed xs @ printed ys"
  by (induction xs rule: printed.induct) auto

lemma fs_print_items [simp]:
  "fs (foldl (\<lambda>st item. emit (Print (f item)) st) s items) = fs s"
  by (induction items arbitrary: s) auto

lemma trace_print_items:
  "trace (foldl (\<lambda>st item. emit (Print (f item)) st) s items) = trace s @ map (\<lambda>i. Print (f i)) items"
  by (induction items arbitrary: s) auto

lemma execs_map_Print [simp]: "execs (map (\<lambda>i. Print (f i)) items) = []"
  by (induction items) auto
lemma copies_map_Print [simp]: "copies (map (\<lambda>i. Print (f i)) items) = []"
  by (induction items) auto
lemma chmods_map_Print [simp]: "chmods (map (\<lambda>i. Print (f i)) items) = []"
  by (induction items) auto

lemma trace_check_executable:
  "\<exists>m. trace (snd (check_executable p pl s)) = trace s @ [Print (''Checking '' @ pl @ '' executable: ''), Print m]"
  by (simp add: check_executable_def Let_def)

lemma execs_check_executable [simp]:
  "execs (trace (snd (check_executable p pl s))) = execs (trace s)"
  using trace_check_executable [of p pl s] by auto
lemma copies_check_executable [simp]:
  "copies (trace (snd (check_executable p pl s))) = copies (trace s)"
  using trace_check_executable [of p pl s] by auto
lemma chmods_check_executable [simp]:
  "chmods (trace (snd (check_executable p pl s))) = chmods (trace s)"
  using trace_check_executable [of p pl s] by auto

lemma execs_report_missing [simp]:
  "execs (trace (snd (report_missing p d s))) = execs (trace s)"
  by (simp add: report_missing_def Let_def trace_print_items split: sum.splits)

lemma check_executable_obs:
  assumes "check_executable p pl s = (ok, s')"
  shows "execs (trace s') = execs (trace s)" "copies (trace s') = copies (trace s)"
    "chmods (trace s') = chmods (trace s)" "fs s' = fs s"
  using assms execs_check_executable [of p pl s] copies_check_executable [of p pl s]
    chmods_check_executable [of p pl s] fs_check_executable [of p pl s]
  by simp_all

lemma execs_copy_and_check [simp]:
  "execs (trace (snd (copy_and_check e p v ad s))) = execs (trace s)"
  by (simp add: copy_and_check_def Let_def check_executable_obs split: sum.splits prod.splits)


lemma execs_build_for_platform:
  "execs (trace (snd (build_for_platform w p v bd ad s))) = execs (trace s) @ [dotnet_cmd v p]"
  by (simp add: build_for_platform_def Let_def split: option.splits)

lemma report_missing_result:
  "fst (report_missing p d s) = Inr False \<or> fst (report_missing p d s) = Inl (Error OSError)"
  by (simp add: report_missing_def Let_def listdir_def split: sum.splits option.splits node.splits)

lemma copy2_error: "copy2 r src dst = Inl e \<Longrightarrow> e = OSError"
  by (auto simp add: copy2_def Let_def split: option.splits node.splits if_splits)

lemma chmod_error: "chmod r p m = Inl e \<Longrightarrow> e = OSError"
  by (auto simp add: chmod_def split: option.splits node.splits)

lemma copy_and_check_raises:
  "fst (copy_and_check e p v ad s) = Inl x \<Longrightarrow> x = Error OSError"
  by (auto simp add: copy_and_check_def Let_def split: sum.splits prod.splits if_splits
      dest: copy2_error chmod_error)

lemma check_executable_True:
  assumes "check_executable p pl s = (True, s')"
  shows "isfile (fs s') p"
proof -
  have "fst (check_executable p pl s)" using assms by simp
  then have "isfile (fs s) p" by (simp add: check_executable_fst)
  moreover have "fs s' = fs s" using assms by (rule check_executable_obs)
  ultimately show ?thesis by simp
qed

lemma copy_and_check_True:
  "copy_and_check e p v ad s = (Inr True, s') \<Longrightarrow> isfile (fs s') (target_file ad v p)"
  by (auto simp add: copy_and_check_def Let_def
      split: sum.splits prod.splits if_splits dest: check_executable_True)

lemma report_missing_not_True: "fst (report_missing p d s) \<noteq> Inr True"
  using report_missing_result [of p d s] by auto

lemma build_for_platform_True:
  assumes "build_for_platform w p v bd ad s = (Inr True, s')"
  shows "isfile (fs s') (target_file ad v p)"
proof -
  obtain e s2 where "copy_and_check e p v ad s2 = (Inr True, s')"
    using assms report_missing_not_True
    by (auto simp add: build_for_platform_def Let_def split: if_splits option.splits)
       (metis fst_conv)+
  then show ?thesis by (rule copy_and_check_True)
qed

lemma report_missing_raises: "fst (report_missing p d s) = Inl x \<Longrightarrow> x = Error OSError"
  using report_missing_result [of p d s] by auto

lemma build_for_platform_raises:
  "fst (build_for_platform w p v bd ad s) = Inl x \<Longrightarrow> x = Error OSError"
  by (auto simp add: build_for_platform_def Let_def split: if_splits option.splits
      dest: report_missing_raises copy_and_check_raises)

lemma verify_platforms_True:
  "fst (verify_platforms w v bd ad ps b s) = Inr True
   \<longleftrightarrow> b \<and> outcomes w v bd ad ps s = map (\<lambda>p. Inr True) ps"
proof (induction ps arbitrary: b s)
  case Nil
  then show ?case by auto
next
  case (Cons p ps)
  show ?case
  proof (cases "build_for_platform w p v bd ad (warn_unknown p s)")
    case (Pair res s')
    then show ?thesis using Cons.IH by (cases res) auto
  qed
qed

lemma verify_platforms_raises:
  "fst (verify_platforms w v bd ad ps b s) = Inl x \<Longrightarrow> x = Error OSError"
proof (induction ps arbitrary: b s)
  case Nil
  then show ?case by simp
next
  case (Cons p ps)
  show ?case
  proof (cases "build_for_platform w p v bd ad (warn_unknown p s)")
    case (Pair res s')
    then show ?thesis using Cons build_for_platform_raises [of w p v bd ad "warn_unknown p s"]
      by (cases res) auto
  qed
qed

lemma execs_warn_unknown [simp]: "execs (trace (warn_unknown p s)) = execs (trace s)"
  by (simp add: warn_unknown_def)

lemma verify_platforms_execs:
  "list_all (\<lambda>out. \<not> isl out) (outcomes w v bd ad ps s)
   \<Longrightarrow> execs (trace (snd (verify_platforms w v bd ad ps b s)))
       = execs (trace s) @ map (dotnet_cmd v) ps"
proof (induction ps arbitrary: b s)
  case Nil
  then show ?case by simp
next
  case (Cons p ps)
  show ?case
  proof (cases "build_for_platform w p v bd ad (warn_unknown p s)")
    case (Pair res s')
    then have ex: "execs (trace s') = execs (trace s) @ [dotnet_cmd v p]"
      using execs_build_for_platform [of w p v bd ad "warn_unknown p s"] by simp
    show ?thesis
    proof (cases res)
      case (Inl e)
      then show ?thesis using Cons.prems Pair by simp
    next
      case (Inr ok)
      then show ?thesis using Cons.prems Pair ex Cons.IH [of s'] by simp
    qed
  qed
qed

lemma verify_platforms_final_file:
  "ps \<noteq> [] \<Longrightarrow> verify_platforms w v bd ad ps b s = (Inr True, s')
   \<Longrightarrow> isfile (fs s') (target_file ad v (last ps))"
proof (induction ps arbitrary: b s)
  case Nil
  then show ?case by simp
next
  case (Cons p ps)
  show ?case
  proof (cases "build_for_platform w p v bd ad (warn_unknown p s)")
    case (Pair res s1)
    show ?thesis
    proof (cases res)
      case (Inl e)
      then show ?thesis using Cons.prems Pair by simp
    next
      case (Inr ok)
      show ?thesis
      proof (cases "ps = []")
        case True
        then have "ok" "s' = s1" using Cons.prems Pair Inr by (auto split: if_splits)
        then show ?thesis using Pair Inr True build_for_platform_True by auto
      next
        case False
        then show ?thesis using Cons.prems Pair Inr Cons.IH by auto
      qed
    qed
  qed
qed




lemma split_on_nonempty [simp]: "split_on d x \<noteq> []"
  by (induction x) (auto split: list.splits)

lemma split_on_sep: "split_on d (a @ d # b) = split_on d a @ split_on d b"
  by (induction a) (auto split: list.splits)

lemma canon_append:
  "canon r cur (xs @ ys) = (case canon r cur xs of None \<Rightarrow> None | Some mid \<Rightarrow> canon r mid ys)"
  by (induction xs arbitrary: cur) (auto split: option.splits node.splits)

lemma canon_needs_dir:
  "ys \<noteq> [] \<Longrightarrow> canon r mid ys = Some cp \<Longrightarrow> \<exists>es. lookup r mid = Some (Dir es)"
  by (cases ys) (auto split: option.splits node.splits)

lemma endswith_slash: "endswith a ''/'' \<longleftrightarrow> (\<exists>a'. a = a' @ ''/'')"
proof
  assume "endswith a ''/''"
  then obtain t where "rev a = CHR ''/'' # t"
    by (cases "rev a") (auto simp add: endswith_def)
  then have "a = rev t @ ''/''" by (metis rev.simps(2) rev_rev_ident)
  then show "\<exists>a'. a = a' @ ''/''" by blast
next
  assume "\<exists>a'. a = a' @ ''/''"
  then show "endswith a ''/''" by (auto simp add: endswith_def)
qed

lemma file_below_directory:
  assumes isf: "isfile r (join2 ad name)" and ad: "ad \<noteq> []"
    and name: "\<not> startswith name ''/''"
  shows "\<exists>es. stat r ad = Some (Dir es)"
proof -
  obtain cp where cp: "canon r [] (split_on CHR ''/'' (join2 ad name)) = Some cp"
    using isf by (auto simp add: isfile_def stat_def resolve_def split: option.splits if_splits)
  show ?thesis
  proof (cases "endswith ad ''/''")
    case True
    then obtain a' where a': "ad = a' @ ''/''" using endswith_slash by blast
    have "join2 ad name = a' @ CHR ''/'' # name" using True name a' by (simp add: join2_def)
    then have "canon r [] (split_on CHR ''/'' a' @ split_on CHR ''/'' name) = Some cp"
      using cp by (simp add: split_on_sep)
    then obtain mid where mid: "canon r [] (split_on CHR ''/'' a') = Some mid"
      and rest: "canon r mid (split_on CHR ''/'' name) = Some cp"
      by (auto simp add: canon_append split: option.splits)
    obtain es where es: "lookup r mid = Some (Dir es)"
      using canon_needs_dir [OF split_on_nonempty rest] by blast
    have "split_on CHR ''/'' ad = split_on CHR ''/'' a' @ [[]]"
      using a' split_on_sep [of "CHR ''/''" a' "[]"] by simp
    then have "canon r [] (split_on CHR ''/'' ad) = Some mid"
      using mid es by (simp add: canon_append)
    then show ?thesis using es ad by (simp add: stat_def resolve_def)
  next
    case False
    have "join2 ad name = ad @ CHR ''/'' # name" using False name ad by (simp add: join2_def)
    then have "canon r [] (split_on CHR ''/'' ad @ split_on CHR ''/'' name) = Some cp"
      using cp by (simp add: split_on_sep)
    then obtain mid where mid: "canon r [] (split_on CHR ''/'' ad) = Some mid"
      and rest: "canon r mid (split_on CHR ''/'' name) = Some cp"
      by (auto simp add: canon_append split: option.splits)
    obtain es where es: "lookup r mid = Some (Dir es)"
      using canon_needs_dir [OF split_on_nonempty rest] by blast
    then show ?thesis using mid ad by (simp add: stat_def resolve_def)
  qed
qed

lemma target_below_assets:
  "isfile r (target_file ad v p) \<Longrightarrow> ad \<noteq> [] \<Longrightarrow> \<exists>items. listdir r ad = Inr items"
  using file_below_directory [of r ad "''RewindSubtitleDisplayerForPlex_'' @ v @ ''_'' @ p @ ext p"]
  by (auto simp add: target_file_def os_path_join_def listdir_def)


lemma prelude_assets_dir:
  "prelude w v s = (Inr (bd, ad), s4) \<Longrightarrow> ad \<noteq> []"
  by (auto simp add: prelude_def Let_def os_path_join_def join2_def
      split: prod.splits sum.splits if_splits)

lemma mkdirs_error: "mkdirs r cur cs = Inl e \<Longrightarrow> e = OSError"
  by (induction r cur cs rule: mkdirs.induct) (auto split: option.splits node.splits if_splits)

lemma prelude_raises:
  "fst (prelude w v s) = Inl x \<Longrightarrow> x = SystemExit 1 \<or> x = Error OSError"
  by (auto simp add: prelude_def Let_def find_repo_root_def makedirs_def
      split: prod.splits sum.splits if_splits dest: mkdirs_error)

lemma execs_finish [simp]: "execs (trace (snd (finish ad b s))) = execs (trace s)"
  by (simp add: finish_def Let_def trace_print_items split: sum.splits)

lemma finish_exit:
  "exit_code (fst (finish ad b s)) = 0 \<longleftrightarrow> b \<and> (\<exists>items. listdir (fs s) ad = Inr items)"
  by (auto simp add: finish_def Let_def split: sum.splits)


lemma trace_report_missing: "\<exists>t. trace (snd (report_missing p d s)) = trace s @ t"
  by (simp add: report_missing_def Let_def trace_print_items split: sum.splits)

lemma trace_check_executable_ex:
  "check_executable q pl st = (ok, st') \<Longrightarrow> \<exists>t. trace st' = trace st @ t"
  using trace_check_executable [of q pl st] by auto

lemma trace_copy_and_check: "\<exists>t. trace (snd (copy_and_check e p v ad s)) = trace s @ t"
  by (auto simp add: copy_and_check_def Let_def split: sum.splits prod.splits
      dest!: trace_check_executable_ex)

lemma trace_after_publish:
  "trace (after_publish w p v s)
   = trace s @ [Print (YELLOW @ (nl @ ''Building for '' @ p @ ''...'') @ NC @ nl),
                Exec (dotnet_cmd v p)]"
  by (simp add: after_publish_def)

lemma build_for_platform_branches:
  "build_for_platform w p v bd ad s =
     (if fst (dotnet_publish w (dotnet_cmd v p) (fs s)) \<noteq> 0 then
        (Inr False, print_colored (''ERROR: Build failed for '' @ p) RED (after_publish w p v s))
      else case find_executable (fs (after_publish w p v s)) (os_path_join bd [p, ''publish'']) p of
             None \<Rightarrow> report_missing p (os_path_join bd [p, ''publish'']) (after_publish w p v s)
           | Some executable \<Rightarrow>
               if executable = []
               then report_missing p (os_path_join bd [p, ''publish'']) (after_publish w p v s)
               else copy_and_check executable p v ad (after_publish w p v s))"
  by (simp add: build_for_platform_def after_publish_def Let_def split: option.splits)

lemma trace_build_for_platform:
  "\<exists>t. trace (snd (build_for_platform w p v bd ad s))
       = trace s @ Print (YELLOW @ (nl @ ''Building for '' @ p @ ''...'') @ NC @ nl)
                 # Exec (dotnet_cmd v p) # t"
proof -
  have "\<exists>t. trace (snd (build_for_platform w p v bd ad s)) = trace (after_publish w p v s) @ t"
    using trace_report_missing [of p "os_path_join bd [p, ''publish'']" "after_publish w p v s"]
      trace_copy_and_check [of _ p v ad "after_publish w p v s"]
    by (simp add: build_for_platform_branches split: option.splits)
  then show ?thesis by (simp add: trace_after_publish)
qed

lemma chmods_report_missing [simp]:
  "chmods (trace (snd (report_missing p d s))) = chmods (trace s)"
  by (simp add: report_missing_def Let_def trace_print_items split: sum.splits)

lemma copies_report_missing [simp]:
  "copies (trace (snd (report_missing p d s))) = copies (trace s)"
  by (simp add: report_missing_def Let_def trace_print_items split: sum.splits)

lemma chmods_copy_and_check:
  "chmods (trace (snd (copy_and_check e p v ad s))) = chmods (trace s)
   \<or> p \<noteq> ''win-x64''
     \<and> chmods (trace (snd (copy_and_check e p v ad s)))
       = chmods (trace s) @ [(target_file ad v p, 493)]"
  by (simp add: copy_and_check_def Let_def check_executable_obs split: sum.splits prod.splits)

lemma copies_copy_and_check:
  "copies (trace (snd (copy_and_check e p v ad s)))
   = copies (trace s) @ [(e, target_file ad v p)]"
  by (simp add: copy_and_check_def Let_def check_executable_obs split: sum.splits prod.splits)

lemma chmods_after_publish [simp]: "chmods (trace (after_publish w p v s)) = chmods (trace s)"
  by (simp add: trace_after_publish)

lemma copies_after_publish [simp]: "copies (trace (after_publish w p v s)) = copies (trace s)"
  by (simp add: trace_after_publish)

lemma chmods_build_for_platform:
  "chmods (trace (snd (build_for_platform w p v bd ad s))) = chmods (trace s)
   \<or> p \<noteq> ''win-x64''
     \<and> chmods (trace (snd (build_for_platform w p v bd ad s)))
       = chmods (trace s) @ [(target_file ad v p, 493)]"
  using chmods_copy_and_check [of _ p v ad "after_publish w p v s"]
  by (simp add: build_for_platform_branches split: option.splits)


lemma copies_build_for_platform:
  assumes "fst (dotnet_publish w (dotnet_cmd v p) (fs s)) = 0"
    and "find_executable (fs (after_publish w p v s)) (os_path_join bd [p, ''publish'']) p
         = Some e"
    and "e \<noteq> []"
  shows "copies (trace (snd (build_for_platform w p v bd ad s)))
         = copies (trace s) @ [(e, target_file ad v p)]"
  using assms by (simp add: build_for_platform_branches copies_copy_and_check)

lemma trace_verify_platforms:
  "\<exists>t. trace (snd (verify_platforms w v bd ad ps b s)) = trace s @ t"
proof (induction ps arbitrary: b s)
  case Nil
  then show ?case by simp
next
  case (Cons p ps)
  obtain res s' where r: "build_for_platform w p v bd ad (warn_unknown p s) = (res, s')"
    by (cases "build_for_platform w p v bd ad (warn_unknown p s)")
  obtain t1 where t1: "trace s' = trace (warn_unknown p s) @ t1"
    using trace_build_for_platform [of w p v bd ad "warn_unknown p s"] r by auto
  obtain t0 where t0: "trace (warn_unknown p s) = trace s @ t0"
    by (cases "p \<in> set PLATFORMS") (auto simp add: warn_unknown_def)
  show ?case
  proof (cases res)
    case (Inl e)
    then show ?thesis using r t0 t1 by simp
  next
    case (Inr ok)
    obtain t2 where "trace (snd (verify_platforms w v bd ad ps (if \<not> ok then False else b) s'))
        = trace s' @ t2"
      using Cons.IH by blast
    then show ?thesis using r Inr t0 t1 by simp
  qed
qed

lemma verify_platforms_Inr:
  "fst (verify_platforms w v bd ad ps b s) = Inr b'
   \<Longrightarrow> b' = (b \<and> list_all (\<lambda>out. out = Inr True) (outcomes w v bd ad ps s))"
proof (induction ps arbitrary: b s)
  case Nil
  then show ?case by simp
next
  case (Cons p ps)
  obtain res s' where r: "build_for_platform w p v bd ad (warn_unknown p s) = (res, s')"
    by (cases "build_for_platform w p v bd ad (warn_unknown p s)")
  show ?case
  proof (cases res)
    case (Inl e)
    then show ?thesis using Cons.prems r by simp
  next
    case (Inr ok)
    then show ?thesis using Cons.prems r Cons.IH [of "if \<not> ok then False else b" s'] by auto
  qed
qed

subsection \<open>check\_executable\<close>

lemma stat_exact_threshold_fs:
  "stat exact_threshold_fs ''/release-assets/RewindSubtitleDisplayerForPlex_1.2.3_win-x64.exe''
   = Some (File 1000000 420)"
  by (simp add: exact_threshold_fs_def stat_def resolve_def)

text \<open>
  C4, as the code has it. \<open>check_executable\<close> reports success if and only if the path is a
  regular file, its size is at least \<open>MIN_FILE_SIZE\<close> (one million bytes: the test that
  fails is \<open>file_size < MIN_FILE_SIZE\<close>), and the platform is \<open>win-x64\<close> or the file may
  be executed. So a file below the threshold fails on every platform, and a file that is
  not executable fails on every platform but \<open>win-x64\<close>, whatever its size.
\<close>

theorem check_executable_passes_iff:
  "fst (check_executable file_path platform_name s) =
     (isfile (fs s) file_path \<and> MIN_FILE_SIZE \<le> getsize (fs s) file_path
      \<and> (platform_name = ''win-x64'' \<or> os_access_X_OK (fs s) file_path))"
  by (auto simp add: check_executable_def Let_def)

theorem check_executable_passes_iff_witness:
  "fst (check_executable
          ''/release-assets/RewindSubtitleDisplayerForPlex_1.2.3_win-x64.exe'' ''win-x64''
          \<lparr>fs = exact_threshold_fs, trace = []\<rparr>)
   \<and> \<not> fst (check_executable
          ''/release-assets/RewindSubtitleDisplayerForPlex_1.2.3_win-x64.exe'' ''linux-x64''
          \<lparr>fs = exact_threshold_fs, trace = []\<rparr>)"
  using
    check_executable_passes_iff
      [of "''/release-assets/RewindSubtitleDisplayerForPlex_1.2.3_win-x64.exe''" "''win-x64''"
          "\<lparr>fs = exact_threshold_fs, trace = []\<rparr>"]
    check_executable_passes_iff
      [of "''/release-assets/RewindSubtitleDisplayerForPlex_1.2.3_win-x64.exe''" "''linux-x64''"
          "\<lparr>fs = exact_threshold_fs, trace = []\<rparr>"]
  by (simp add: isfile_def getsize_def os_access_X_OK_def stat_exact_threshold_fs
        MIN_FILE_SIZE_def)

text \<open>
  C4 as stated asks for a size that exceeds the threshold. A file of exactly
  \<open>MIN_FILE_SIZE\<close> bytes does not exceed it, and \<open>check_executable\<close> accepts it.
\<close>

theorem check_executable_exceeds_counterexample:
  "fst (check_executable
          ''/release-assets/RewindSubtitleDisplayerForPlex_1.2.3_win-x64.exe'' ''win-x64''
          \<lparr>fs = exact_threshold_fs, trace = []\<rparr>)
   \<and> \<not> MIN_FILE_SIZE
        < getsize exact_threshold_fs
            ''/release-assets/RewindSubtitleDisplayerForPlex_1.2.3_win-x64.exe''"
  by (simp add: check_executable_def Let_def isfile_def getsize_def stat_exact_threshold_fs
        MIN_FILE_SIZE_def)

end
